theory Spec2Isabelle
  imports Complex_Main
begin

section \<open>RainTomorrow: the form, the feature vector and the prediction block of app.py\<close>

text \<open>
  \<^verbatim>\<open>app.py\<close> is a Streamlit script. Every interaction runs it from its first line
  to its last: it reads the widgets, fills the dictionary \<^verbatim>\<open>input_data\<close>, and, when
  the button was pressed, looks the features up in the order of \<^verbatim>\<open>features_list\<close>
  and hands the row to \<^verbatim>\<open>model.predict\<close>.

  The model below starts at line 24, with \<^verbatim>\<open>model\<close> bound to the loaded artifact
  (lines 8 to 16 stop the script when loading fails, so nothing after them runs
  without it). Calls that only lay the page out (title, headers, columns, separators,
  caption) carry no data and are left out.
\<close>

subsection \<open>Values, exceptions, the dictionary\<close>

text \<open>
  The values the script stores are Python numbers: \<^verbatim>\<open>st.number_input\<close> with a float
  \<^verbatim>\<open>value\<close> returns a float, \<^verbatim>\<open>st.slider\<close> with integer bounds returns an int. The
  script never computes with a float, it only stores and reads it, so the type of
  floats is a parameter \<open>'f\<close>. A predicted label is a Python value too, compared
  with the string \<^verbatim>\<open>'No'\<close>.
\<close>

datatype 'f pyval = PyFloat 'f | PyInt int | PyStr string

text \<open>
  An exception (an instance of \<^verbatim>\<open>Exception\<close>, which is what line 145 catches) is its
  class name and the text \<^verbatim>\<open>str(e)\<close> gives.
\<close>

datatype exn = Exn (cls: string) (str_of: string)

text \<open>\<^verbatim>\<open>d[k]\<close> on a missing key raises \<^verbatim>\<open>KeyError(k)\<close>, whose text is the quoted key.\<close>

definition KeyError :: "string \<Rightarrow> exn" where
  "KeyError k = Exn ''KeyError'' ([CHR 0x27] @ k @ [CHR 0x27])"

type_synonym 'f dict = "string \<rightharpoonup> 'f pyval"

subsection \<open>The widgets\<close>

text \<open>
  What the widgets return in one run of the script, in the order the script reads
  them (lines 45 to 107), and whether the button of line 120 was pressed.
\<close>

record 'f form =
  MinTemp :: 'f
  MaxTemp :: 'f
  Rainfall :: 'f
  Humidity9am :: int
  Humidity3pm :: int
  WindGustSpeed :: 'f
  WindSpeed9am :: 'f
  WindSpeed3pm :: 'f
  Pressure9am :: 'f
  Pressure3pm :: 'f
  Cloud9am :: int
  Cloud3pm :: int
  Temp9am :: 'f
  Temp3pm :: 'f
  rain_today_option :: string
  Month :: int
  selected_wind_dir :: string
  predict_clicked :: bool

definition features_list :: "string list" where
  "features_list =
    [''MinTemp'', ''MaxTemp'', ''Rainfall'', ''WindGustSpeed'', ''WindSpeed9am'',
     ''WindSpeed3pm'', ''Humidity9am'', ''Humidity3pm'', ''Pressure9am'',
     ''Pressure3pm'', ''Cloud9am'', ''Cloud3pm'', ''Temp9am'', ''Temp3pm'', ''RainToday'', ''Month'',
     ''WindGustDir_ENE'', ''WindGustDir_ESE'', ''WindGustDir_N'', ''WindGustDir_NE'',
     ''WindGustDir_NNE'', ''WindGustDir_NNW'', ''WindGustDir_NW'', ''WindGustDir_S'',
     ''WindGustDir_SE'', ''WindGustDir_SSE'', ''WindGustDir_SSW'', ''WindGustDir_SW'',
     ''WindGustDir_W'', ''WindGustDir_WNW'', ''WindGustDir_WSW'']"

definition wind_directions :: "string list" where
  "wind_directions =
    [''ENE'', ''ESE'', ''N'', ''NE'', ''NNE'', ''NNW'', ''NW'', ''S'', ''SE'', ''SSE'',
     ''SSW'', ''SW'', ''W'', ''WNW'', ''WSW'']"

text \<open>
  The bounds the widgets are created with: a slider returns an integer between its
  \<^verbatim>\<open>min_value\<close> and \<^verbatim>\<open>max_value\<close>, a radio returns one of its options. The script
  itself never compares a value with a bound.
\<close>

definition slider_range :: "int \<Rightarrow> int \<Rightarrow> int \<Rightarrow> bool" where
  "slider_range min_value max_value v = (min_value \<le> v \<and> v \<le> max_value)"

definition widget_ranges :: "'f form \<Rightarrow> bool" where
  "widget_ranges w =
    (slider_range 0 100 (Humidity9am w) \<and> slider_range 0 100 (Humidity3pm w) \<and>
     slider_range 0 9 (Cloud9am w) \<and> slider_range 0 9 (Cloud3pm w) \<and>
     slider_range 1 12 (Month w) \<and>
     rain_today_option w \<in> set [''No'', ''Yes''] \<and>
     selected_wind_dir w \<in> set (''None'' # wind_directions))"

subsection \<open>What the user entered\<close>

text \<open>
  The state of the page before a run: for every widget what the user entered in it,
  or \<open>None\<close> when the user has not touched it, and whether the button was pressed.
  The defaults are the numbers of the source, so the floats are \<open>real\<close> here.
\<close>

record entries =
  user_MinTemp :: "real option"
  user_MaxTemp :: "real option"
  user_Rainfall :: "real option"
  user_Humidity9am :: "int option"
  user_Humidity3pm :: "int option"
  user_WindGustSpeed :: "real option"
  user_WindSpeed9am :: "real option"
  user_WindSpeed3pm :: "real option"
  user_Pressure9am :: "real option"
  user_Pressure3pm :: "real option"
  user_Cloud9am :: "int option"
  user_Cloud3pm :: "int option"
  user_Temp9am :: "real option"
  user_Temp3pm :: "real option"
  user_rain_today :: "string option"
  user_Month :: "int option"
  user_wind_dir :: "string option"
  user_clicked :: bool

text \<open>
  \<^verbatim>\<open>st.number_input(label, value=...)\<close> returns what the user entered, and its
  \<^verbatim>\<open>value\<close> as long as the user has entered nothing.
\<close>

definition number_input :: "real \<Rightarrow> real option \<Rightarrow> real" where
  "number_input value entered = (case entered of None \<Rightarrow> value | Some x \<Rightarrow> x)"

text \<open>
  \<^verbatim>\<open>st.slider(label, min_value, max_value, value)\<close> likewise; the handle cannot leave
  the track, so what the user entered lies between the bounds (see \<open>entries_in_bounds\<close>).
\<close>

definition slider :: "int \<Rightarrow> int \<Rightarrow> int \<Rightarrow> int option \<Rightarrow> int" where
  "slider min_value max_value value entered =
     (case entered of None \<Rightarrow> value | Some x \<Rightarrow> x)"

text \<open>
  \<^verbatim>\<open>st.radio(label, options, index=0)\<close> returns the option the user chose, and the
  option at \<^verbatim>\<open>index\<close> as long as the user has chosen none.
\<close>

definition radio :: "string list \<Rightarrow> nat \<Rightarrow> string option \<Rightarrow> string" where
  "radio options index entered =
     (case entered of None \<Rightarrow> options ! index | Some choice \<Rightarrow> choice)"

text \<open>
  The widget calls of lines 45 to 107 and of line 120, with the arguments the script
  gives them.
\<close>

definition read_widgets :: "entries \<Rightarrow> real form" where
  "read_widgets u =
    \<lparr>MinTemp = number_input 13.4 (user_MinTemp u),
     MaxTemp = number_input 22.9 (user_MaxTemp u),
     Rainfall = number_input 0.6 (user_Rainfall u),
     Humidity9am = slider 0 100 71 (user_Humidity9am u),
     Humidity3pm = slider 0 100 22 (user_Humidity3pm u),
     WindGustSpeed = number_input 44.0 (user_WindGustSpeed u),
     WindSpeed9am = number_input 20.0 (user_WindSpeed9am u),
     WindSpeed3pm = number_input 24.0 (user_WindSpeed3pm u),
     Pressure9am = number_input 1007.7 (user_Pressure9am u),
     Pressure3pm = number_input 1007.1 (user_Pressure3pm u),
     Cloud9am = slider 0 9 8 (user_Cloud9am u),
     Cloud3pm = slider 0 9 5 (user_Cloud3pm u),
     Temp9am = number_input 16.9 (user_Temp9am u),
     Temp3pm = number_input 21.8 (user_Temp3pm u),
     rain_today_option = radio [''No'', ''Yes''] 0 (user_rain_today u),
     Month = slider 1 12 12 (user_Month u),
     selected_wind_dir = radio (''None'' # wind_directions) 0 (user_wind_dir u),
     predict_clicked = user_clicked u\<rparr>"

text \<open>What the widgets let the user enter: a slider a value within its bounds, a radio one
  of its options.\<close>

definition entered_within :: "int \<Rightarrow> int \<Rightarrow> int option \<Rightarrow> bool" where
  "entered_within min_value max_value entered =
     (case entered of None \<Rightarrow> True | Some x \<Rightarrow> slider_range min_value max_value x)"

definition entered_among :: "string list \<Rightarrow> string option \<Rightarrow> bool" where
  "entered_among options entered =
     (case entered of None \<Rightarrow> True | Some choice \<Rightarrow> choice \<in> set options)"

definition entries_in_bounds :: "entries \<Rightarrow> bool" where
  "entries_in_bounds u =
    (entered_within 0 100 (user_Humidity9am u) \<and> entered_within 0 100 (user_Humidity3pm u) \<and>
     entered_within 0 9 (user_Cloud9am u) \<and> entered_within 0 9 (user_Cloud3pm u) \<and>
     entered_within 1 12 (user_Month u) \<and>
     entered_among [''No'', ''Yes''] (user_rain_today u) \<and>
     entered_among (''None'' # wind_directions) (user_wind_dir u))"

subsection \<open>Filling \<^verbatim>\<open>input_data\<close>\<close>

text \<open>Lines 45 to 93: one assignment per widget, in the order of the script.\<close>

definition widget_inputs :: "'f form \<Rightarrow> 'f dict \<Rightarrow> 'f dict" where
  "widget_inputs w input_data =
    (let input_data = input_data(''MinTemp'' \<mapsto> PyFloat (MinTemp w));
         input_data = input_data(''MaxTemp'' \<mapsto> PyFloat (MaxTemp w));
         input_data = input_data(''Rainfall'' \<mapsto> PyFloat (Rainfall w));
         input_data = input_data(''Humidity9am'' \<mapsto> PyInt (Humidity9am w));
         input_data = input_data(''Humidity3pm'' \<mapsto> PyInt (Humidity3pm w));
         input_data = input_data(''WindGustSpeed'' \<mapsto> PyFloat (WindGustSpeed w));
         input_data = input_data(''WindSpeed9am'' \<mapsto> PyFloat (WindSpeed9am w));
         input_data = input_data(''WindSpeed3pm'' \<mapsto> PyFloat (WindSpeed3pm w));
         input_data = input_data(''Pressure9am'' \<mapsto> PyFloat (Pressure9am w));
         input_data = input_data(''Pressure3pm'' \<mapsto> PyFloat (Pressure3pm w));
         input_data = input_data(''Cloud9am'' \<mapsto> PyInt (Cloud9am w));
         input_data = input_data(''Cloud3pm'' \<mapsto> PyInt (Cloud3pm w));
         input_data = input_data(''Temp9am'' \<mapsto> PyFloat (Temp9am w));
         input_data = input_data(''Temp3pm'' \<mapsto> PyFloat (Temp3pm w));
         input_data = input_data(''RainToday'' \<mapsto>
                        PyInt (if rain_today_option w = ''Yes'' then 1 else 0));
         input_data = input_data(''Month'' \<mapsto> PyInt (Month w))
     in input_data)"

text \<open>
  Lines 110 to 115: every direction's flag is set to 0, then the flag of the selected
  direction is set to 1 unless the selection is \<^verbatim>\<open>'None'\<close>. The key is built from the
  selection, whatever it is.
\<close>

definition wind_gust_flags :: "string \<Rightarrow> 'f dict \<Rightarrow> 'f dict" where
  "wind_gust_flags selected input_data =
    (let input_data =
           fold (\<lambda>direction d. d(''WindGustDir_'' @ direction \<mapsto> PyInt 0))
             wind_directions input_data
     in if selected \<noteq> ''None''
        then input_data(''WindGustDir_'' @ selected \<mapsto> PyInt 1)
        else input_data)"

definition fill_input_data :: "'f form \<Rightarrow> 'f dict \<Rightarrow> 'f dict" where
  "fill_input_data w input_data =
     wind_gust_flags (selected_wind_dir w) (widget_inputs w input_data)"

text \<open>Line 35: the dictionary starts empty in every run.\<close>

definition input_data_of :: "'f form \<Rightarrow> 'f dict" where
  "input_data_of w = fill_input_data w Map.empty"

subsection \<open>The feature vector\<close>

text \<open>
  Line 123, \<^verbatim>\<open>[input_data[feature] for feature in features_list]\<close>: the keys are
  looked up from left to right and the first missing one raises.
\<close>

fun getitems :: "'f dict \<Rightarrow> string list \<Rightarrow> exn + 'f pyval list" where
  "getitems d [] = Inr []"
| "getitems d (feature # rest) =
     (case d feature of
        None \<Rightarrow> Inl (KeyError feature)
      | Some v \<Rightarrow>
          (case getitems d rest of
             Inl e \<Rightarrow> Inl e
           | Inr vs \<Rightarrow> Inr (v # vs)))"

definition model_input_values :: "'f dict \<Rightarrow> exn + 'f pyval list" where
  "model_input_values input_data = getitems input_data features_list"

definition build :: "'f form \<Rightarrow> exn + 'f pyval list" where
  "build w = model_input_values (input_data_of w)"

text \<open>The flags of the directions, as a list in the order of \<^verbatim>\<open>wind_directions\<close>.\<close>

definition one_hot :: "string \<Rightarrow> 'f pyval list" where
  "one_hot selected =
     map (\<lambda>direction. PyInt (if selected = direction then 1 else 0)) wind_directions"

text \<open>The first 16 features, the ones a widget's value is stored under.\<close>

definition scalar_features :: "string list" where
  "scalar_features = take 16 features_list"

text \<open>What lines 45 to 93 store under them, in the order of \<^verbatim>\<open>features_list\<close>.\<close>

definition scalar_values :: "'f form \<Rightarrow> 'f pyval list" where
  "scalar_values w =
     [PyFloat (MinTemp w), PyFloat (MaxTemp w), PyFloat (Rainfall w),
      PyFloat (WindGustSpeed w), PyFloat (WindSpeed9am w), PyFloat (WindSpeed3pm w),
      PyInt (Humidity9am w), PyInt (Humidity3pm w),
      PyFloat (Pressure9am w), PyFloat (Pressure3pm w),
      PyInt (Cloud9am w), PyInt (Cloud3pm w),
      PyFloat (Temp9am w), PyFloat (Temp3pm w),
      PyInt (if rain_today_option w = ''Yes'' then 1 else 0),
      PyInt (Month w)]"

subsection \<open>The prediction block\<close>

text \<open>
  What the script shows: the calls of lines 129 to 147, in the order they are made.
\<close>

datatype st_call =
    StSpinner string
  | StSuccess string
  | StBalloons
  | StSnow
  | StMetric string string string
  | StMarkdown string
  | StError string
  | StWarning string

text \<open>
  The predictor is opaque. Line 126 makes of the 31 values the one-row array
  \<^verbatim>\<open>np.array(model_input_values).reshape(1, -1)\<close>, and line 131 hands it to
  \<^verbatim>\<open>model.predict\<close>. numpy is opaque as the model is, so the parameter \<open>predict\<close>
  stands for the two together: it is given the loaded model and the rows the array is
  made from (here one row), and what numpy does with the numbers (an int becomes the
  float of the same value) happens inside it. It returns the array of labels, one per
  row, or raises, and it may change the model object.
\<close>

type_synonym ('f, 'm) predictor = "'m \<Rightarrow> 'f pyval list list \<Rightarrow> (exn + 'f pyval list) \<times> 'm"

text \<open>Lines 136 to 138 and lines 140 to 143. The strings are the source's UTF-8 bytes.\<close>

definition no_rain_view :: "st_call list" where
  "no_rain_view =
     [StBalloons,
      StMetric ''Will it rain tomorrow?''
        (''No '' @ [CHR 0xE2, CHR 0x98, CHR 0x80, CHR 0xEF, CHR 0xB8, CHR 0x8F])
        ''Clear skies expected!'',
      StMarkdown ''Enjoy your day!'']"

definition rain_view :: "st_call list" where
  "rain_view =
     [StSnow,
      StMetric ''Will it rain tomorrow?''
        (''Yes '' @ [CHR 0xF0, CHR 0x9F, CHR 0x8C, CHR 0xA7, CHR 0xEF, CHR 0xB8, CHR 0x8F])
        (''Rain is likely! Don'' @ [CHR 0x27] @ ''t forget your umbrella!''),
      StMarkdown ''Be prepared for some wet weather.'']"

text \<open>Line 135: \<^verbatim>\<open>if prediction[0] == 'No'\<close>.\<close>

definition show_label :: "'f pyval \<Rightarrow> st_call list" where
  "show_label prediction0 = (if prediction0 = PyStr ''No'' then no_rain_view else rain_view)"

text \<open>Lines 145 to 147: the handler of \<^verbatim>\<open>except Exception as e\<close>.\<close>

definition prediction_failed :: "exn \<Rightarrow> st_call list" where
  "prediction_failed e =
     [StError (''An error occurred during prediction: '' @ str_of e),
      StWarning ''Please check your input values and ensure they are within a reasonable range for the model.'']"

text \<open>\<^verbatim>\<open>prediction[0]\<close> on an array without elements raises inside the \<^verbatim>\<open>try\<close>.\<close>

definition IndexError :: exn where
  "IndexError = Exn ''IndexError'' ''index 0 is out of bounds for axis 0 with size 0''"

text \<open>
  Lines 126 to 147. \<^verbatim>\<open>model.predict\<close> is called once, inside the \<^verbatim>\<open>try\<close>; there is no
  loop around it.
\<close>

definition predict_block ::
  "('f, 'm) predictor \<Rightarrow> 'm \<Rightarrow> 'f pyval list \<Rightarrow> st_call list \<times> 'm" where
  "predict_block predict model values =
     (let final_model_input = [values];
          (result, model) = predict model final_model_input
      in (StSpinner ''Making prediction...'' #
          (case result of
             Inl e \<Rightarrow> prediction_failed e
           | Inr prediction \<Rightarrow>
               StSuccess ''Prediction Complete!'' #
               (case prediction of
                  [] \<Rightarrow> prediction_failed IndexError
                | prediction0 # _ \<Rightarrow> show_label prediction0)),
          model))"

text \<open>
  How a run of the script ends: it reaches its last line, or an exception nothing
  catches leaves it (line 123 is outside the \<^verbatim>\<open>try\<close>).
\<close>

datatype run_end = Finished | Uncaught exn

text \<open>
  One run of the script, lines 35 to 150: what it shows in the prediction block, how
  it ends, and the model object afterwards.
\<close>

definition script ::
  "('f, 'm) predictor \<Rightarrow> 'm \<Rightarrow> 'f form \<Rightarrow> st_call list \<times> run_end \<times> 'm" where
  "script predict model w =
     (let input_data = input_data_of w
      in if predict_clicked w
         then (case model_input_values input_data of
                 Inl e \<Rightarrow> ([], Uncaught e, model)
               | Inr values \<Rightarrow>
                   (case predict_block predict model values of
                      (shown, model) \<Rightarrow> (shown, Finished, model)))
         else ([], Finished, model))"

subsection \<open>Example inputs\<close>

text \<open>The form holding every widget's default value, with the button pressed.\<close>

definition default_form :: "real form" where
  "default_form =
    \<lparr>MinTemp = 13.4, MaxTemp = 22.9, Rainfall = 0.6, Humidity9am = 71, Humidity3pm = 22,
     WindGustSpeed = 44.0, WindSpeed9am = 20.0, WindSpeed3pm = 24.0,
     Pressure9am = 1007.7, Pressure3pm = 1007.1, Cloud9am = 8, Cloud3pm = 5,
     Temp9am = 16.9, Temp3pm = 21.8, rain_today_option = ''No'', Month = 12,
     selected_wind_dir = ''None'', predict_clicked = True\<rparr>"


text \<open>
  A predictor for the examples: the model object counts the calls made to it; the
  first call raises, every later call answers with the single label \<^verbatim>\<open>'No'\<close>.
\<close>

definition failing_once :: "(real, nat) predictor" where
  "failing_once calls rows =
     (if calls = 0 then Inl (Exn ''ValueError'' ''bad input'') else Inr [PyStr ''No''],
      Suc calls)"


section \<open>Lemmas\<close>

subsection \<open>Looking keys up in the filled dictionary\<close>

lemma fold_upd_apply:
  "fold (\<lambda>x d. d(f x \<mapsto> v)) xs d k = (if k \<in> f ` set xs then Some v else d k)"
  by (induction xs arbitrary: d) auto

lemma wind_gust_flags_apply:
  "wind_gust_flags s d k =
     (if s \<noteq> ''None'' \<and> k = ''WindGustDir_'' @ s then Some (PyInt 1)
      else if k \<in> (\<lambda>direction. ''WindGustDir_'' @ direction) ` set wind_directions
           then Some (PyInt 0)
      else d k)"
  unfolding wind_gust_flags_def Let_def by (simp add: fold_upd_apply)

lemma None_not_direction: "''None'' \<notin> set wind_directions"
  by (simp add: wind_directions_def)

lemma distinct_wind_directions: "distinct wind_directions"
  by (simp add: wind_directions_def)

lemma length_wind_directions: "length wind_directions = 15"
  by (simp add: wind_directions_def)

lemma fill_wind:
  assumes "direction \<in> set wind_directions"
  shows "fill_input_data w d (''WindGustDir_'' @ direction) =
           Some (PyInt (if selected_wind_dir w = direction then 1 else 0))"
proof -
  from assms None_not_direction have "direction \<noteq> ''None''" by metis
  with assms show ?thesis
    unfolding fill_input_data_def wind_gust_flags_apply by auto
qed

lemma scalar_features_eq:
  "scalar_features =
    [''MinTemp'', ''MaxTemp'', ''Rainfall'', ''WindGustSpeed'', ''WindSpeed9am'',
     ''WindSpeed3pm'', ''Humidity9am'', ''Humidity3pm'', ''Pressure9am'',
     ''Pressure3pm'', ''Cloud9am'', ''Cloud3pm'', ''Temp9am'', ''Temp3pm'', ''RainToday'', ''Month'']"
  by (simp add: scalar_features_def features_list_def)

lemma features_list_split:
  "features_list =
     scalar_features @ map (\<lambda>direction. ''WindGustDir_'' @ direction) wind_directions"
  by (simp add: scalar_features_eq) (simp add: features_list_def wind_directions_def)

lemma wind_gust_flags_scalar:
  assumes "k \<in> set scalar_features"
  shows "wind_gust_flags s d k = d k"
proof -
  from assms have "take 12 k \<noteq> ''WindGustDir_''"
    unfolding scalar_features_eq by auto
  then have "k \<noteq> ''WindGustDir_'' @ x" for x by auto
  then show ?thesis unfolding wind_gust_flags_apply by auto
qed

lemma getitems_scalar:
  "getitems (widget_inputs w d) scalar_features = Inr (scalar_values w)"
  unfolding scalar_features_eq scalar_values_def widget_inputs_def Let_def
  by simp

lemma getitems_cong:
  "(\<And>k. k \<in> set ks \<Longrightarrow> d k = d' k) \<Longrightarrow> getitems d ks = getitems d' ks"
  by (induction ks) (auto split: option.splits)

lemma getitems_map:
  "(\<And>x. x \<in> set xs \<Longrightarrow> d (f x) = Some (g x)) \<Longrightarrow>
     getitems d (map f xs) = Inr (map g xs)"
  by (induction xs) (auto split: option.splits)

lemma getitems_append:
  "getitems d ks = Inr vs \<Longrightarrow> getitems d ks' = Inr vs' \<Longrightarrow>
     getitems d (ks @ ks') = Inr (vs @ vs')"
  by (induction ks arbitrary: vs) (auto split: option.splits sum.splits)

lemma fill_values:
  "model_input_values (fill_input_data w d) =
     Inr (scalar_values w @ one_hot (selected_wind_dir w))"
proof -
  let ?D = "fill_input_data w d"
  have "getitems ?D scalar_features = getitems (widget_inputs w d) scalar_features"
    by (rule getitems_cong) (simp add: fill_input_data_def wind_gust_flags_scalar)
  then have scalars: "getitems ?D scalar_features = Inr (scalar_values w)"
    by (simp add: getitems_scalar)
  have flags:
    "getitems ?D (map (\<lambda>direction. ''WindGustDir_'' @ direction) wind_directions) =
       Inr (one_hot (selected_wind_dir w))"
    unfolding one_hot_def by (rule getitems_map) (rule fill_wind)
  show ?thesis
    unfolding model_input_values_def features_list_split
    by (rule getitems_append [OF scalars flags])
qed

lemma build_eq: "build w = Inr (scalar_values w @ one_hot (selected_wind_dir w))"
  by (simp add: build_def input_data_of_def fill_values)

lemma length_scalar_values: "length (scalar_values w) = 16"
  by (simp add: scalar_values_def)

lemma length_one_hot: "length (one_hot s) = 15"
  by (simp add: one_hot_def length_wind_directions)

subsection \<open>The flags as a list\<close>

lemma nth_scalar:
  "i < 16 \<Longrightarrow> (scalar_values w @ one_hot s) ! i = scalar_values w ! i"
  by (simp add: nth_append length_scalar_values)

lemma count_flags_one:
  "distinct xs \<Longrightarrow>
     count_list (map (\<lambda>direction. PyInt (if s = direction then 1 else 0)) xs) (PyInt 1) =
       (if s \<in> set xs then 1 else 0)"
  by (induction xs) auto

lemma count_flags_zero:
  "count_list (map (\<lambda>direction. PyInt (if s = direction then 1 else 0)) xs) (PyInt 0) +
   count_list (map (\<lambda>direction. PyInt (if s = direction then 1 else 0)) xs) (PyInt 1) =
     length xs"
  by (induction xs) auto

lemma count_one_hot_1:
  "count_list (one_hot s) (PyInt 1) = (if s \<in> set wind_directions then 1 else 0)"
  unfolding one_hot_def by (rule count_flags_one) (rule distinct_wind_directions)

lemma count_one_hot_0:
  "count_list (one_hot s :: 'f pyval list) (PyInt 0) =
     15 - count_list (one_hot s :: 'f pyval list) (PyInt 1)"
proof -
  have "count_list (one_hot s :: 'f pyval list) (PyInt 0) +
        count_list (one_hot s :: 'f pyval list) (PyInt 1) = 15"
    unfolding one_hot_def by (simp add: count_flags_zero length_wind_directions)
  then show ?thesis by arith
qed

lemma flags_unknown:
  "s \<notin> set xs \<Longrightarrow>
     map (\<lambda>direction. PyInt (if s = direction then 1 else 0)) xs = replicate (length xs) (PyInt 0)"
  by (induction xs) auto

lemma flags_known:
  assumes "distinct xs" and "i < length xs"
  shows "map (\<lambda>direction. PyInt (if xs ! i = direction then 1 else 0)) xs =
           (replicate (length xs) (PyInt 0))[i := PyInt 1]"
proof (rule nth_equalityI)
  show "length (map (\<lambda>direction. PyInt (if xs ! i = direction then 1 else 0)) xs) =
          length ((replicate (length xs) (PyInt 0))[i := PyInt 1])"
    by simp
next
  fix j
  assume "j < length (map (\<lambda>direction. PyInt (if xs ! i = direction then 1 else 0)) xs)"
  then have j: "j < length xs" by simp
  with assms have "xs ! i = xs ! j \<longleftrightarrow> i = j"
    by (simp add: nth_eq_iff_index_eq)
  with j assms(2)
  show "map (\<lambda>direction. PyInt (if xs ! i = direction then 1 else 0)) xs ! j =
          (replicate (length xs) (PyInt 0))[i := PyInt 1] ! j"
    by (auto simp: nth_list_update)
qed

lemma one_hot_unknown:
  "s \<notin> set wind_directions \<Longrightarrow> one_hot s = replicate 15 (PyInt 0)"
  unfolding one_hot_def by (simp add: flags_unknown length_wind_directions)

lemma one_hot_known:
  assumes "s \<in> set wind_directions"
  shows "\<exists>i<15. wind_directions ! i = s \<and> one_hot s = (replicate 15 (PyInt 0))[i := PyInt 1]"
proof -
  from assms obtain i where i: "i < length wind_directions" "wind_directions ! i = s"
    by (auto simp: in_set_conv_nth)
  from flags_known [OF distinct_wind_directions i(1)] i
  have "one_hot s = (replicate 15 (PyInt 0))[i := PyInt 1]"
    by (simp add: one_hot_def length_wind_directions)
  with i show ?thesis by (auto simp: length_wind_directions)
qed

subsection \<open>The script and the examples\<close>

lemma script_clicked:
  "predict_clicked w \<Longrightarrow>
     script predict model w =
       (case predict_block predict model (scalar_values w @ one_hot (selected_wind_dir w)) of
          (shown, model) \<Rightarrow> (shown, Finished, model))"
  using build_eq [of w] by (simp add: script_def build_def)

lemma default_clicked: "predict_clicked default_form"
  by (simp add: default_form_def)


subsection \<open>The widgets and what the user entered\<close>





lemma read_widgets_ranges: "entries_in_bounds u \<Longrightarrow> widget_ranges (read_widgets u)"
  by (auto simp: entries_in_bounds_def entered_within_def entered_among_def widget_ranges_def
      read_widgets_def slider_def radio_def slider_range_def split: option.splits)

text \<open>
  The values at the ends of the humidity and cloud sliders are within the bounds, and
  the vector holds the humidity and cloud values of the form at positions 6, 7, 10
  and 11.
\<close>

lemma boundary_values_in_vector:
  "(h9 \<in> {0, 100} \<and> h3 \<in> {0, 100} \<and> c9 \<in> {0, 9} \<and> c3 \<in> {0, 9} \<and> widget_ranges w \<longrightarrow>
      widget_ranges (w\<lparr>Humidity9am := h9, Humidity3pm := h3, Cloud9am := c9, Cloud3pm := c3\<rparr>)) \<and>
   (\<exists>v. build w = Inr v \<and>
      v ! 6 = PyInt (Humidity9am w) \<and> v ! 7 = PyInt (Humidity3pm w) \<and>
      v ! 10 = PyInt (Cloud9am w) \<and> v ! 11 = PyInt (Cloud3pm w))"
proof (intro conjI impI)
  assume "h9 \<in> {0, 100} \<and> h3 \<in> {0, 100} \<and> c9 \<in> {0, 9} \<and> c3 \<in> {0, 9} \<and> widget_ranges w"
  then show "widget_ranges (w\<lparr>Humidity9am := h9, Humidity3pm := h3, Cloud9am := c9, Cloud3pm := c3\<rparr>)"
    by (auto simp: widget_ranges_def slider_range_def)
next
  show "\<exists>v. build w = Inr v \<and>
      v ! 6 = PyInt (Humidity9am w) \<and> v ! 7 = PyInt (Humidity3pm w) \<and>
      v ! 10 = PyInt (Cloud9am w) \<and> v ! 11 = PyInt (Cloud3pm w)"
    by (simp add: build_eq nth_scalar) (simp add: scalar_values_def)
qed

section \<open>The claims\<close>

text \<open>
  C1. Whatever the widgets return (in particular for every form within the widgets'
  ranges, with any selection of the wind-gust direction), the lookup of line 123
  succeeds and the vector it builds has exactly 31 elements.
\<close>

theorem build_length_31: "\<exists>v. build w = Inr v \<and> length v = 31"
  by (simp add: build_eq length_scalar_values length_one_hot)

text \<open>The default form is within the widgets' ranges, and its vector has 31 elements.\<close>

theorem build_length_31_witness:
  "widget_ranges default_form \<and> (\<exists>v. build default_form = Inr v \<and> length v = 31)"
  using build_length_31 [of default_form]
  by (simp add: widget_ranges_def slider_range_def default_form_def)

text \<open>
  C2. The vector holds, in this order, MinTemp, MaxTemp, Rainfall, WindGustSpeed,
  WindSpeed9am, WindSpeed3pm, Humidity9am, Humidity3pm, Pressure9am, Pressure3pm,
  Cloud9am, Cloud3pm, Temp9am, Temp3pm, the RainToday flag, Month, and then the flags
  of ENE, ESE, N, NE, NNE, NNW, NW, S, SE, SSE, SSW, SW, W, WNW, WSW; every numeric
  field is the value the widget returned, unchanged.
\<close>

theorem build_order:
  "build w =
     Inr ([PyFloat (MinTemp w), PyFloat (MaxTemp w), PyFloat (Rainfall w),
           PyFloat (WindGustSpeed w), PyFloat (WindSpeed9am w), PyFloat (WindSpeed3pm w),
           PyInt (Humidity9am w), PyInt (Humidity3pm w),
           PyFloat (Pressure9am w), PyFloat (Pressure3pm w),
           PyInt (Cloud9am w), PyInt (Cloud3pm w),
           PyFloat (Temp9am w), PyFloat (Temp3pm w),
           PyInt (if rain_today_option w = ''Yes'' then 1 else 0),
           PyInt (Month w)] @
          map (\<lambda>direction. PyInt (if selected_wind_dir w = direction then 1 else 0))
            [''ENE'', ''ESE'', ''N'', ''NE'', ''NNE'', ''NNW'', ''NW'', ''S'', ''SE'', ''SSE'',
             ''SSW'', ''SW'', ''W'', ''WNW'', ''WSW''])"
  by (simp only: build_eq scalar_values_def one_hot_def wind_directions_def)

text \<open>The vector of the default form with direction W and rain today.\<close>

theorem build_order_witness:
  "build (default_form\<lparr>selected_wind_dir := ''W'', rain_today_option := ''Yes''\<rparr>) =
     Inr [PyFloat 13.4, PyFloat 22.9, PyFloat 0.6, PyFloat 44.0, PyFloat 20.0, PyFloat 24.0,
          PyInt 71, PyInt 22, PyFloat 1007.7, PyFloat 1007.1, PyInt 8, PyInt 5,
          PyFloat 16.9, PyFloat 21.8, PyInt 1, PyInt 12,
          PyInt 0, PyInt 0, PyInt 0, PyInt 0, PyInt 0, PyInt 0, PyInt 0, PyInt 0,
          PyInt 0, PyInt 0, PyInt 0, PyInt 0, PyInt 1, PyInt 0, PyInt 0]"
  using build_order [of "default_form\<lparr>selected_wind_dir := ''W'', rain_today_option := ''Yes''\<rparr>"]
  by (simp add: default_form_def)

text \<open>
  C3. Element 14 (counted from 0) of the vector is 1 when the radio of line 85 returned
  \<^verbatim>\<open>'Yes'\<close>, and 0 when it returned \<^verbatim>\<open>'No'\<close> or anything else.
\<close>

theorem rain_today_flag:
  "\<exists>v. build w = Inr v \<and> v ! 14 = PyInt (if rain_today_option w = ''Yes'' then 1 else 0)"
  by (simp add: build_eq nth_scalar) (simp add: scalar_values_def)

text \<open>The flag for the answers Yes, No and a third string.\<close>

theorem rain_today_flag_witness:
  "(\<exists>v. build (default_form\<lparr>rain_today_option := ''Yes''\<rparr>) = Inr v \<and> v ! 14 = PyInt 1) \<and>
   (\<exists>v. build (default_form\<lparr>rain_today_option := ''No''\<rparr>) = Inr v \<and> v ! 14 = PyInt 0) \<and>
   (\<exists>v. build (default_form\<lparr>rain_today_option := ''yes''\<rparr>) = Inr v \<and> v ! 14 = PyInt 0)"
  using rain_today_flag [of "default_form\<lparr>rain_today_option := ''Yes''\<rparr>"]
    rain_today_flag [of "default_form\<lparr>rain_today_option := ''No''\<rparr>"]
    rain_today_flag [of "default_form\<lparr>rain_today_option := ''yes''\<rparr>"]
  by simp

text \<open>
  C4. For every form and every selection of the wind-gust direction, the vector has 15
  elements after the first 16; at most one of them is 1, and all the others are 0.
\<close>

theorem one_hot_at_most_one:
  "\<exists>v. build w = Inr v \<and> length (drop 16 v) = 15 \<and>
        count_list (drop 16 v) (PyInt 1) \<le> 1 \<and>
        count_list (drop 16 v) (PyInt 0) = 15 - count_list (drop 16 v) (PyInt 1)"
  by (simp add: build_eq length_scalar_values length_one_hot count_one_hot_0)
    (simp add: count_one_hot_1)

text \<open>The flags of the default form with direction NNW.\<close>

theorem one_hot_at_most_one_witness:
  "\<exists>v. build (default_form\<lparr>selected_wind_dir := ''NNW''\<rparr>) = Inr v \<and> length (drop 16 v) = 15 \<and>
        count_list (drop 16 v) (PyInt 1) \<le> 1 \<and>
        count_list (drop 16 v) (PyInt 0) = 15 - count_list (drop 16 v) (PyInt 1)"
  using one_hot_at_most_one [of "default_form\<lparr>selected_wind_dir := ''NNW''\<rparr>"] .

text \<open>
  C5. When the selection is not one of the 15 labels (the radio's \<^verbatim>\<open>'None'\<close>, or any
  other string), building succeeds and all 15 flags are 0. When it is one of the 15
  labels, the flags are all 0 except the one at the label's position in
  \<^verbatim>\<open>wind_directions\<close>, which is 1.
\<close>

theorem wind_direction_encoding:
  "(selected_wind_dir w \<notin> set wind_directions \<longrightarrow>
      (\<exists>v. build w = Inr v \<and> drop 16 v = replicate 15 (PyInt 0))) \<and>
   (selected_wind_dir w \<in> set wind_directions \<longrightarrow>
      (\<exists>v. build w = Inr v \<and>
         (\<exists>i<15. wind_directions ! i = selected_wind_dir w \<and>
                  drop 16 v = (replicate 15 (PyInt 0))[i := PyInt 1])))"
  by (simp add: build_eq length_scalar_values one_hot_unknown one_hot_known)

text \<open>The radio's None, a string that is no label, and the label W.\<close>

theorem wind_direction_encoding_witness:
  "(\<exists>v. build default_form = Inr v \<and> drop 16 v = replicate 15 (PyInt 0)) \<and>
   (\<exists>v. build (default_form\<lparr>selected_wind_dir := ''unknown-garbage''\<rparr>) = Inr v \<and>
         drop 16 v = replicate 15 (PyInt 0)) \<and>
   (\<exists>v. build (default_form\<lparr>selected_wind_dir := ''W''\<rparr>) = Inr v \<and>
         (\<exists>i<15. wind_directions ! i = ''W'' \<and>
                  drop 16 v = (replicate 15 (PyInt 0))[i := PyInt 1]))"
  using wind_direction_encoding [of default_form]
    wind_direction_encoding [of "default_form\<lparr>selected_wind_dir := ''unknown-garbage''\<rparr>"]
    wind_direction_encoding [of "default_form\<lparr>selected_wind_dir := ''W''\<rparr>"]
  by (simp add: default_form_def wind_directions_def)






text \<open>
  C9. When the button was pressed and \<^verbatim>\<open>model.predict\<close> raises an exception \<open>e\<close>,
  the script shows \<^verbatim>\<open>st.error\<close> with the text of \<open>e\<close> and the warning of line 147,
  and neither the success message nor a result. The predictor is not called again: the
  model object after the run is the one the single call left. The run reaches its last
  line: the script neither stops nor gives the model up, so the form stays usable for
  another attempt.
\<close>

theorem prediction_failure_surfaced:
  "predict_clicked w \<Longrightarrow> build w = Inr v \<Longrightarrow> predict model [v] = (Inl e, model') \<Longrightarrow>
     script predict model w =
       ([StSpinner ''Making prediction...'',
         StError (''An error occurred during prediction: '' @ str_of e),
         StWarning ''Please check your input values and ensure they are within a reasonable range for the model.''],
        Finished, model')"
  by (simp add: script_clicked build_eq predict_block_def prediction_failed_def)

text \<open>
  A run in which the call raises shows the error and leaves the model after one call;
  a run in which the call answers shows the result.
\<close>

theorem prediction_failure_surfaced_witness:
  "script failing_once 0 default_form =
     ([StSpinner ''Making prediction...'',
       StError ''An error occurred during prediction: bad input'',
       StWarning ''Please check your input values and ensure they are within a reasonable range for the model.''],
      Finished, 1) \<and>
   script failing_once 1 default_form =
     (StSpinner ''Making prediction...'' # StSuccess ''Prediction Complete!'' # no_rain_view,
      Finished, 2)"
proof
  have "failing_once 0 [scalar_values default_form @ one_hot (selected_wind_dir default_form)] =
          (Inl (Exn ''ValueError'' ''bad input''), 1)"
    by (simp add: failing_once_def)
  from prediction_failure_surfaced
         [where predict = failing_once and model = 0, OF default_clicked build_eq this]
  show "script failing_once 0 default_form =
     ([StSpinner ''Making prediction...'',
       StError ''An error occurred during prediction: bad input'',
       StWarning ''Please check your input values and ensure they are within a reasonable range for the model.''],
      Finished, 1)"
    by simp
  show "script failing_once 1 default_form =
     (StSpinner ''Making prediction...'' # StSuccess ''Prediction Complete!'' # no_rain_view,
      Finished, 2)"
    by (simp add: script_clicked default_clicked predict_block_def failing_once_def show_label_def)
qed



end
